theory Spec2Isabelle
  imports Main "HOL-Library.Char_ord" "HOL-Library.List_Lexorder" "HOL-Library.AList"
    "HOL-Library.Multiset"
begin

section \<open>Objects, exceptions and callables\<close>

text \<open>
  A class object is identified by its module and its name; class objects are the keys of
  the container's dictionaries, which Python hashes by identity. An instance is an
  address together with its runtime class: two instances are the same object
  (\<^verbatim>\<open>is\<close>) iff their addresses agree. The next unused address is threaded through
  every function that may construct an object.

  \<open>exn\<close> stands for the subclasses of \<^verbatim>\<open>Exception\<close>, the ones every
  \<^verbatim>\<open>except Exception\<close> of the source catches. A zero-argument callable stored in
  a registry (an implementation class, a factory function) either creates a new instance,
  as the docstrings of the source say of a factory function, or raises.
\<close>

datatype cid = Cid (cid_module: string) (cid_name: string)

datatype pyobject = Instance (i_ref: nat) (i_type: cid)

datatype exn =
    ValueError string
  | KeyError string
  | AttributeError string
  | ImportError string
  | RuntimeError string

datatype callable = Constructs cid | Raises exn

definition call :: "callable \<Rightarrow> nat \<Rightarrow> (exn + pyobject) \<times> nat" where
  "call f h = (case f of
       Constructs t \<Rightarrow> (Inr (Instance h t), Suc h)
     | Raises e \<Rightarrow> (Inl e, h))"

section \<open>Container (core/di/container.py)\<close>

record container =
  c_services :: "cid \<rightharpoonup> callable"
  c_singletons :: "cid \<rightharpoonup> pyobject"
  c_factories :: "cid \<rightharpoonup> callable"

definition Container_init :: container where
  "Container_init = \<lparr>c_services = Map.empty, c_singletons = Map.empty, c_factories = Map.empty\<rparr>"

definition register :: "cid \<Rightarrow> callable \<Rightarrow> bool \<Rightarrow> container \<Rightarrow> container" where
  "register interface implementation singleton c =
     (if singleton then c\<lparr>c_services := (c_services c)(interface \<mapsto> implementation)\<rparr>
      else c\<lparr>c_factories := (c_factories c)(interface \<mapsto> implementation)\<rparr>)"

definition register_instance :: "cid \<Rightarrow> pyobject \<Rightarrow> container \<Rightarrow> container" where
  "register_instance interface inst c =
     c\<lparr>c_singletons := (c_singletons c)(interface \<mapsto> inst)\<rparr>"

definition register_factory :: "cid \<Rightarrow> callable \<Rightarrow> container \<Rightarrow> container" where
  "register_factory interface factory c =
     c\<lparr>c_factories := (c_factories c)(interface \<mapsto> factory)\<rparr>"

definition not_registered :: "cid \<Rightarrow> exn" where
  "not_registered interface = ValueError (''Service '' @ cid_name interface @ '' is not registered'')"

text \<open>
  \<open>resolve\<close> returns the result (an instance, or the exception raised), the container and
  the next unused address. The inner test \<^verbatim>\<open>interface not in self._singletons\<close> of
  the source always holds where it stands, since the first test has failed.
\<close>

definition resolve :: "cid \<Rightarrow> container \<Rightarrow> nat \<Rightarrow> (exn + pyobject) \<times> container \<times> nat" where
  "resolve interface c h =
     (case c_singletons c interface of
        Some x \<Rightarrow> (Inr x, c, h)
      | None \<Rightarrow>
         (case c_services c interface of
            Some impl \<Rightarrow>
              (case call impl h of
                 (Inl e, h') \<Rightarrow> (Inl e, c, h')
               | (Inr x, h') \<Rightarrow>
                   (Inr x, c\<lparr>c_singletons := (c_singletons c)(interface \<mapsto> x)\<rparr>, h'))
          | None \<Rightarrow>
             (case c_factories c interface of
                Some f \<Rightarrow> (case call f h of (r, h') \<Rightarrow> (r, c, h'))
              | None \<Rightarrow> (Inl (not_registered interface), c, h))))"

definition is_registered :: "cid \<Rightarrow> container \<Rightarrow> bool" where
  "is_registered interface c \<longleftrightarrow>
     c_services c interface \<noteq> None \<or> c_singletons c interface \<noteq> None
     \<or> c_factories c interface \<noteq> None"

definition clear :: "container \<Rightarrow> container" where
  "clear c = c\<lparr>c_services := Map.empty, c_singletons := Map.empty, c_factories := Map.empty\<rparr>"

text \<open>
  A caller of the container: the calls it may make, and a run of such calls. The result
  of a \<open>Resolve\<close> is dropped, as a caller that ignores the value (or catches the error)
  would.
\<close>

datatype container_call =
    Register cid callable bool
  | RegisterInstance cid pyobject
  | RegisterFactory cid callable
  | Resolve cid
  | Clear

fun container_step :: "container_call \<Rightarrow> container \<times> nat \<Rightarrow> container \<times> nat" where
  "container_step (Register i impl s) (c, h) = (register i impl s c, h)"
| "container_step (RegisterInstance i x) (c, h) = (register_instance i x c, h)"
| "container_step (RegisterFactory i f) (c, h) = (register_factory i f c, h)"
| "container_step (Resolve i) (c, h) = snd (resolve i c h)"
| "container_step Clear (c, h) = (clear c, h)"

definition container_run :: "container_call list \<Rightarrow> container \<times> nat \<Rightarrow> container \<times> nat" where
  "container_run calls s = fold container_step calls s"

text \<open>A call that may change which instance is stored under \<open>i\<close>.\<close>

fun rebinds :: "cid \<Rightarrow> container_call \<Rightarrow> bool" where
  "rebinds i (RegisterInstance j x) = (i = j)"
| "rebinds i Clear = True"
| "rebinds i _ = False"

subsection \<open>Properties of the container\<close>

lemma resolve_singleton:
  "c_singletons c i = Some x \<Longrightarrow> resolve i c h = (Inr x, c, h)"
  by (simp add: resolve_def)

lemma resolve_keeps_singleton:
  "c_singletons c i = Some x \<Longrightarrow> c_singletons (fst (snd (resolve j c h))) i = Some x"
  by (auto simp: resolve_def split: option.splits sum.splits prod.splits)

lemma container_step_keeps_singleton:
  assumes "c_singletons (fst s) i = Some x" and "\<not> rebinds i k"
  shows "c_singletons (fst (container_step k s)) i = Some x"
proof (cases s)
  case (Pair c h)
  with assms show ?thesis
    by (cases k) (auto simp: register_def register_instance_def register_factory_def
        resolve_keeps_singleton)
qed

lemma container_run_keeps_singleton:
  "c_singletons (fst s) i = Some x \<Longrightarrow> \<forall>k \<in> set calls. \<not> rebinds i k \<Longrightarrow>
   c_singletons (fst (container_run calls s)) i = Some x"
  unfolding container_run_def
  by (induction calls arbitrary: s) (simp_all add: container_step_keeps_singleton)

text \<open>
  C1. \<open>resolve\<close> looks in the instance table first, then in the singleton-class table
  (constructing the instance, storing it in the instance table and returning that stored
  instance from then on), then in the factory table (calling the factory at every resolve
  and storing nothing); with no entry in any table it raises the not-registered error.
  After \<open>register_instance c x\<close>, \<open>resolve c\<close> returns \<open>x\<close> after any further calls that
  neither register another instance under \<open>c\<close> nor clear the container.
\<close>

theorem resolve_precedence:
  "(c_singletons c i = Some x \<longrightarrow> resolve i c h = (Inr x, c, h))
   \<and> (c_singletons c i = None \<and> c_services c i = Some (Constructs t) \<longrightarrow>
        resolve i c h = (Inr (Instance h t), register_instance i (Instance h t) c, Suc h)
        \<and> (\<forall>h'. resolve i (register_instance i (Instance h t) c) h'
              = (Inr (Instance h t), register_instance i (Instance h t) c, h')))
   \<and> (c_singletons c i = None \<and> c_services c i = Some (Raises e) \<longrightarrow>
        resolve i c h = (Inl e, c, h))
   \<and> (c_singletons c i = None \<and> c_services c i = None \<and> c_factories c i = Some f \<longrightarrow>
        resolve i c h = (fst (call f h), c, snd (call f h)))
   \<and> (c_singletons c i = None \<and> c_services c i = None \<and> c_factories c i = Some (Constructs t) \<longrightarrow>
        fst (resolve i c h) = Inr (Instance h t)
        \<and> fst (resolve i c (Suc h)) = Inr (Instance (Suc h) t))
   \<and> (c_singletons c i = None \<and> c_services c i = None \<and> c_factories c i = None \<longrightarrow>
        resolve i c h = (Inl (not_registered i), c, h))
   \<and> ((\<forall>k \<in> set calls. \<not> rebinds i k) \<longrightarrow>
        (case container_run calls (register_instance i y c, h) of
           (c', h') \<Rightarrow> resolve i c' h' = (Inr y, c', h')))"
proof -
  have run: "(\<forall>k \<in> set calls. \<not> rebinds i k) \<longrightarrow>
        (case container_run calls (register_instance i y c, h) of
           (c', h') \<Rightarrow> resolve i c' h' = (Inr y, c', h'))"
  proof
    assume nr: "\<forall>k \<in> set calls. \<not> rebinds i k"
    have "c_singletons (fst (register_instance i y c, h)) i = Some y"
      by (simp add: register_instance_def)
    from container_run_keeps_singleton [OF this nr]
    show "case container_run calls (register_instance i y c, h) of
           (c', h') \<Rightarrow> resolve i c' h' = (Inr y, c', h')"
      by (auto simp: resolve_singleton split: prod.splits)
  qed
  show ?thesis
    apply (intro conjI)
          apply (simp add: resolve_def)
         apply (simp add: resolve_def call_def register_instance_def)
        apply (simp add: resolve_def call_def)
       apply (simp add: resolve_def split: prod.splits)
      apply (simp add: resolve_def call_def)
     apply (simp add: resolve_def)
    apply (rule run)
    done
qed

text \<open>Concrete capabilities and implementation classes for the closed instances below.\<close>

definition IFoo :: cid where "IFoo = Cid ''app.interfaces'' ''IFoo''"
definition Foo :: cid where "Foo = Cid ''app.impl'' ''Foo''"
definition Bar :: cid where "Bar = Cid ''app.impl'' ''Bar''"

theorem resolve_precedence_witness:
  "resolve IFoo (register_instance IFoo (Instance 3 Foo) (register IFoo (Constructs Bar) True Container_init)) 8
     = (Inr (Instance 3 Foo),
        register_instance IFoo (Instance 3 Foo) (register IFoo (Constructs Bar) True Container_init), 8)
   \<and> resolve IFoo (register IFoo (Constructs Foo) True (register_factory IFoo (Constructs Bar) Container_init)) 8
     = (Inr (Instance 8 Foo),
        register_instance IFoo (Instance 8 Foo)
          (register IFoo (Constructs Foo) True (register_factory IFoo (Constructs Bar) Container_init)), 9)
   \<and> resolve IFoo (register_factory IFoo (Constructs Bar) Container_init) 8
     = (Inr (Instance 8 Bar), register_factory IFoo (Constructs Bar) Container_init, 9)
   \<and> resolve IFoo Container_init 8 = (Inl (ValueError ''Service IFoo is not registered''), Container_init, 8)
   \<and> fst (resolve IFoo
        (fst (container_run [Resolve Foo, Register IFoo (Constructs Bar) True, Resolve IFoo]
           (register_instance IFoo (Instance 3 Foo) Container_init, 8))) 8) = Inr (Instance 3 Foo)"
  using
    resolve_precedence [where c = "register_instance IFoo (Instance 3 Foo) (register IFoo (Constructs Bar) True Container_init)"
      and i = IFoo and x = "Instance 3 Foo" and h = 8 and t = Foo and e = "ValueError []"
      and f = "Constructs Bar" and calls = "[]" and y = "Instance 3 Foo"]
    resolve_precedence [where c = "register IFoo (Constructs Foo) True (register_factory IFoo (Constructs Bar) Container_init)"
      and i = IFoo and x = "Instance 3 Foo" and h = 8 and t = Foo and e = "ValueError []"
      and f = "Constructs Bar" and calls = "[]" and y = "Instance 3 Foo"]
    resolve_precedence [where c = "register_factory IFoo (Constructs Bar) Container_init"
      and i = IFoo and x = "Instance 3 Foo" and h = 8 and t = Bar and e = "ValueError []"
      and f = "Constructs Bar" and calls = "[]" and y = "Instance 3 Foo"]
    resolve_precedence [where c = "Container_init"
      and i = IFoo and x = "Instance 3 Foo" and h = 8 and t = Bar and e = "ValueError []"
      and f = "Constructs Bar"
      and calls = "[Resolve Foo, Register IFoo (Constructs Bar) True, Resolve IFoo]"
      and y = "Instance 3 Foo"]
  by (simp add: IFoo_def Foo_def Bar_def Container_init_def register_def register_instance_def
      register_factory_def call_def not_registered_def container_run_def resolve_def
      split: prod.splits)

text \<open>
  C9. Once the instance table holds an instance \<open>x\<close> under \<open>i\<close>, whether
  \<open>register_instance\<close> put it there or the first resolve of a singleton-class
  registration did, registering another implementation class under \<open>i\<close> (as a singleton)
  does not change what \<open>resolve i\<close> returns: it is \<open>x\<close> right away and after any further
  calls that neither register another instance under \<open>i\<close> nor clear the container; after
  \<open>clear\<close> nothing is registered; and \<open>register_instance i y\<close> makes \<open>resolve i\<close> return
  \<open>y\<close> at once.
\<close>

theorem cached_instance_survives_register:
  "(c_singletons c i = Some x \<longrightarrow>
      resolve i (register i other True c) h = (Inr x, register i other True c, h)
      \<and> (\<forall>calls. (\<forall>k \<in> set calls. \<not> rebinds i k) \<longrightarrow>
           (case container_run calls (register i other True c, h) of
              (c', h') \<Rightarrow> resolve i c' h' = (Inr x, c', h')))
      \<and> resolve i (clear (register i other True c)) h
           = (Inl (not_registered i), clear (register i other True c), h)
      \<and> resolve i (register_instance i y (register i other True c)) h
           = (Inr y, register_instance i y (register i other True c), h))
   \<and> c_singletons (register_instance i x c) i = Some x
   \<and> (c_singletons c i = None \<and> c_services c i = Some (Constructs t) \<longrightarrow>
        c_singletons (fst (snd (resolve i c h))) i = Some (Instance h t))"
proof -
  let ?c = "register i other True c"
  have main: "resolve i ?c h = (Inr x, ?c, h)
      \<and> (\<forall>calls. (\<forall>k \<in> set calls. \<not> rebinds i k) \<longrightarrow>
           (case container_run calls (?c, h) of (c', h') \<Rightarrow> resolve i c' h' = (Inr x, c', h')))
      \<and> resolve i (clear ?c) h = (Inl (not_registered i), clear ?c, h)
      \<and> resolve i (register_instance i y ?c) h = (Inr y, register_instance i y ?c, h)"
    if cached: "c_singletons c i = Some x"
  proof -
    have s: "c_singletons ?c i = Some x"
      using cached by (simp add: register_def)
    have a: "resolve i ?c h = (Inr x, ?c, h)"
      using s by (rule resolve_singleton)
    have b: "\<forall>calls. (\<forall>k \<in> set calls. \<not> rebinds i k) \<longrightarrow>
        (case container_run calls (?c, h) of (c', h') \<Rightarrow> resolve i c' h' = (Inr x, c', h'))"
    proof (intro allI impI)
      fix calls assume nr: "\<forall>k \<in> set calls. \<not> rebinds i k"
      have "c_singletons (fst (?c, h)) i = Some x" using s by simp
      from container_run_keeps_singleton [OF this nr]
      show "case container_run calls (?c, h) of (c', h') \<Rightarrow> resolve i c' h' = (Inr x, c', h')"
        by (auto simp: resolve_singleton split: prod.splits)
    qed
    have c: "resolve i (clear ?c) h = (Inl (not_registered i), clear ?c, h)"
      by (simp add: resolve_def clear_def)
    have d: "resolve i (register_instance i y ?c) h = (Inr y, register_instance i y ?c, h)"
      by (rule resolve_singleton) (simp add: register_instance_def)
    from a b c d show ?thesis by blast
  qed
  have origins: "c_singletons (register_instance i x c) i = Some x
   \<and> (c_singletons c i = None \<and> c_services c i = Some (Constructs t) \<longrightarrow>
        c_singletons (fst (snd (resolve i c h))) i = Some (Instance h t))"
    by (simp add: register_instance_def resolve_def call_def)
  from main origins show ?thesis by blast
qed

theorem cached_instance_survives_register_witness:
  "fst (resolve IFoo (register IFoo (Constructs Foo) True Container_init) 4) = Inr (Instance 4 Foo)
   \<and> fst (resolve IFoo
        (register IFoo (Constructs Bar) True
           (fst (snd (resolve IFoo (register IFoo (Constructs Foo) True Container_init) 4)))) 5)
       = Inr (Instance 4 Foo)
   \<and> fst (resolve IFoo
        (fst (container_run [Resolve IFoo, Register IFoo (Constructs Bar) True, Resolve Bar]
          (register IFoo (Constructs Bar) True
             (fst (snd (resolve IFoo (register IFoo (Constructs Foo) True Container_init) 4))), 5))) 5)
       = Inr (Instance 4 Foo)
   \<and> fst (resolve IFoo
        (register_instance IFoo (Instance 2 Bar)
          (register IFoo (Constructs Bar) True
             (fst (snd (resolve IFoo (register IFoo (Constructs Foo) True Container_init) 4))))) 5)
       = Inr (Instance 2 Bar)"
  using cached_instance_survives_register
    [where c = "fst (snd (resolve IFoo (register IFoo (Constructs Foo) True Container_init) 4))"
      and i = IFoo and x = "Instance 4 Foo" and other = "Constructs Bar" and h = 5
      and y = "Instance 2 Bar" and t = Foo]
  by (simp add: IFoo_def Foo_def Bar_def Container_init_def register_def register_instance_def
      register_factory_def call_def not_registered_def container_run_def resolve_def clear_def
      split: prod.splits)


section \<open>SingletonFactory and SingletonRegistry (core/di/singleton_factory.py)\<close>

text \<open>
  A \<^verbatim>\<open>SingletonFactory\<close> is a mutable object holding its factory function and its
  cached instance; the registry's dictionary holds references to such objects, and one
  object may be stored under several names. The factory objects therefore live in a store
  indexed by address (\<open>h_factory\<close>), next to the allocation counter; the registry's
  dictionary is an association list from names to addresses.
\<close>

record singleton_factory =
  sf_factory_func :: callable
  sf_instance :: "pyobject option"

record pyheap =
  h_factory :: "nat \<Rightarrow> singleton_factory"
  h_next :: nat

type_synonym singleton_registry = "(string \<times> nat) list"

definition SingletonFactory_init :: "callable \<Rightarrow> pyheap \<Rightarrow> nat \<times> pyheap" where
  "SingletonFactory_init factory_func hp =
     (h_next hp,
      hp\<lparr>h_factory := (h_factory hp)
             (h_next hp := \<lparr>sf_factory_func = factory_func, sf_instance = None\<rparr>),
         h_next := Suc (h_next hp)\<rparr>)"

definition create_singleton_factory :: "callable \<Rightarrow> pyheap \<Rightarrow> nat \<times> pyheap" where
  "create_singleton_factory factory_func hp = SingletonFactory_init factory_func hp"

definition SingletonFactory_get_instance :: "nat \<Rightarrow> pyheap \<Rightarrow> (exn + pyobject) \<times> pyheap" where
  "SingletonFactory_get_instance a hp =
     (case sf_instance (h_factory hp a) of
        Some x \<Rightarrow> (Inr x, hp)
      | None \<Rightarrow>
         (case call (sf_factory_func (h_factory hp a)) (h_next hp) of
            (Inl e, n) \<Rightarrow> (Inl e, hp\<lparr>h_next := n\<rparr>)
          | (Inr x, n) \<Rightarrow>
              (Inr x, hp\<lparr>h_factory := (h_factory hp)(a := (h_factory hp a)\<lparr>sf_instance := Some x\<rparr>),
                         h_next := n\<rparr>)))"

definition SingletonFactory_reset_instance :: "nat \<Rightarrow> pyheap \<Rightarrow> pyheap" where
  "SingletonFactory_reset_instance a hp =
     hp\<lparr>h_factory := (h_factory hp)(a := (h_factory hp a)\<lparr>sf_instance := None\<rparr>)\<rparr>"

definition SingletonRegistry_init :: singleton_registry where
  "SingletonRegistry_init = []"

definition SingletonRegistry_register_factory ::
    "string \<Rightarrow> nat \<Rightarrow> singleton_registry \<Rightarrow> singleton_registry" where
  "SingletonRegistry_register_factory name factory r = AList.update name factory r"

definition factory_not_registered :: "string \<Rightarrow> exn" where
  "factory_not_registered name =
     KeyError (''Singleton factory '' @ [CHR 0x27] @ name @ [CHR 0x27] @ '' not registered'')"

definition SingletonRegistry_get_instance ::
    "string \<Rightarrow> singleton_registry \<Rightarrow> pyheap \<Rightarrow> (exn + pyobject) \<times> pyheap" where
  "SingletonRegistry_get_instance name r hp =
     (case map_of r name of
        None \<Rightarrow> (Inl (factory_not_registered name), hp)
      | Some a \<Rightarrow> SingletonFactory_get_instance a hp)"

definition SingletonRegistry_reset_instance ::
    "string \<Rightarrow> singleton_registry \<Rightarrow> pyheap \<Rightarrow> pyheap" where
  "SingletonRegistry_reset_instance name r hp =
     (case map_of r name of
        None \<Rightarrow> hp
      | Some a \<Rightarrow> SingletonFactory_reset_instance a hp)"

definition SingletonRegistry_reset_all :: "singleton_registry \<Rightarrow> pyheap \<Rightarrow> pyheap" where
  "SingletonRegistry_reset_all r hp = fold SingletonFactory_reset_instance (map snd r) hp"


definition heap_ok :: "pyheap \<Rightarrow> bool" where
  "heap_ok hp \<longleftrightarrow> (\<forall>a x. sf_instance (h_factory hp a) = Some x \<longrightarrow> i_ref x < h_next hp)"

lemma factory_get_cached:
  "sf_instance (h_factory hp a) = Some x \<Longrightarrow> SingletonFactory_get_instance a hp = (Inr x, hp)"
  by (simp add: SingletonFactory_get_instance_def)





lemma factory_get_fresh:
  "sf_instance (h_factory hp a) = None \<Longrightarrow> sf_factory_func (h_factory hp a) = Constructs t \<Longrightarrow>
   SingletonFactory_get_instance a hp =
     (Inr (Instance (h_next hp) t),
      hp\<lparr>h_factory := (h_factory hp)(a := (h_factory hp a)\<lparr>sf_instance := Some (Instance (h_next hp) t)\<rparr>),
         h_next := Suc (h_next hp)\<rparr>)"
  by (simp add: SingletonFactory_get_instance_def call_def)

lemma factory_get_ok:
  "heap_ok hp \<Longrightarrow> heap_ok (snd (SingletonFactory_get_instance a hp))"
  by (auto simp: heap_ok_def SingletonFactory_get_instance_def call_def less_Suc_eq
      split: option.splits callable.splits)



text \<open>
  The start of the process as container.py sets it up: one factory object for the
  \<^verbatim>\<open>Container\<close>, registered under \<^verbatim>\<open>'container'\<close>.
\<close>

definition empty_heap :: pyheap where
  "empty_heap = \<lparr>h_factory = (\<lambda>a. \<lparr>sf_factory_func = Raises (RuntimeError ''unallocated''),
                                      sf_instance = None\<rparr>),
                  h_next = 0\<rparr>"

definition ContainerClass :: cid where
  "ContainerClass = Cid ''backend.core.di.container'' ''Container''"

definition container_heap :: pyheap where
  "container_heap = snd (create_singleton_factory (Constructs ContainerClass) empty_heap)"

definition container_registry :: singleton_registry where
  "container_registry = SingletonRegistry_register_factory ''container'' 0 SingletonRegistry_init"

lemmas singleton_defs =
  SingletonFactory_init_def create_singleton_factory_def SingletonFactory_get_instance_def
  SingletonFactory_reset_instance_def SingletonRegistry_init_def
  SingletonRegistry_register_factory_def SingletonRegistry_get_instance_def
  SingletonRegistry_reset_instance_def factory_not_registered_def call_def
  empty_heap_def ContainerClass_def container_heap_def container_registry_def


text \<open>
  C3, as stated, fails: the cached instance is a field of the factory object, so after
  \<open>register_factory\<close> stores another factory object under the name, \<open>get_instance\<close>
  asks that object, which constructs an instance of its own.
\<close>

theorem register_factory_cache_counterexample:
  "fst (SingletonRegistry_get_instance ''container'' container_registry container_heap)
     = Inr (Instance 1 ContainerClass)
   \<and> fst (SingletonRegistry_get_instance ''container''
        (SingletonRegistry_register_factory ''container'' 2 container_registry)
        (snd (create_singleton_factory (Constructs ContainerClass)
          (snd (SingletonRegistry_get_instance ''container'' container_registry container_heap)))))
     = Inr (Instance 3 ContainerClass)
   \<and> Instance 3 ContainerClass \<noteq> Instance 1 ContainerClass"
  by (simp add: singleton_defs)

text \<open>
  C3, amended. After \<open>register_factory n new\<close>, \<open>get_instance n\<close> is \<open>get_instance\<close> of
  the factory object \<open>new\<close>: it returns the instance \<open>new\<close> has cached, if it has one (so
  the instance cached before is returned again only when \<open>new\<close> holds it, as when the same
  factory object is registered again); when \<open>new\<close> has cached nothing and its function
  constructs, the call returns a newly constructed instance, different from the instance
  the replaced factory had cached.
\<close>

theorem register_factory_replaces_cache:
  "SingletonRegistry_get_instance n (SingletonRegistry_register_factory n new r) hp
     = SingletonFactory_get_instance new hp
   \<and> (sf_instance (h_factory hp new) = Some y \<longrightarrow>
        SingletonRegistry_get_instance n (SingletonRegistry_register_factory n new r) hp = (Inr y, hp))
   \<and> (heap_ok hp \<and> map_of r n = Some old \<and> sf_instance (h_factory hp old) = Some x
        \<and> sf_instance (h_factory hp new) = None
        \<and> sf_factory_func (h_factory hp new) = Constructs t \<longrightarrow>
        fst (SingletonRegistry_get_instance n (SingletonRegistry_register_factory n new r) hp)
          = Inr (Instance (h_next hp) t)
        \<and> i_ref (Instance (h_next hp) t) \<noteq> i_ref x)"
proof -
  have eq: "SingletonRegistry_get_instance n (SingletonRegistry_register_factory n new r) hp
     = SingletonFactory_get_instance new hp"
    by (simp add: SingletonRegistry_get_instance_def SingletonRegistry_register_factory_def
        update_conv')
  have cached: "sf_instance (h_factory hp new) = Some y \<longrightarrow>
        SingletonFactory_get_instance new hp = (Inr y, hp)"
    by (simp add: factory_get_cached)
  have fresh: "heap_ok hp \<and> map_of r n = Some old \<and> sf_instance (h_factory hp old) = Some x
        \<and> sf_instance (h_factory hp new) = None
        \<and> sf_factory_func (h_factory hp new) = Constructs t \<longrightarrow>
        fst (SingletonFactory_get_instance new hp) = Inr (Instance (h_next hp) t)
        \<and> i_ref (Instance (h_next hp) t) \<noteq> i_ref x"
  proof (intro impI)
    assume h: "heap_ok hp \<and> map_of r n = Some old \<and> sf_instance (h_factory hp old) = Some x
        \<and> sf_instance (h_factory hp new) = None
        \<and> sf_factory_func (h_factory hp new) = Constructs t"
    then have "i_ref x < h_next hp"
      unfolding heap_ok_def by blast
    with h show "fst (SingletonFactory_get_instance new hp) = Inr (Instance (h_next hp) t)
        \<and> i_ref (Instance (h_next hp) t) \<noteq> i_ref x"
      by (simp add: factory_get_fresh)
  qed
  from eq cached fresh show ?thesis by simp
qed

theorem register_factory_replaces_cache_witness:
  "fst (SingletonRegistry_get_instance ''container''
        (SingletonRegistry_register_factory ''container'' 2 container_registry)
        (snd (create_singleton_factory (Constructs ContainerClass)
          (snd (SingletonRegistry_get_instance ''container'' container_registry container_heap)))))
     = Inr (Instance 3 ContainerClass)
   \<and> fst (SingletonRegistry_get_instance ''container''
        (SingletonRegistry_register_factory ''container'' 0 container_registry)
        (snd (SingletonRegistry_get_instance ''container'' container_registry container_heap)))
     = Inr (Instance 1 ContainerClass)"
  using register_factory_replaces_cache [where n = "''container''" and new = 2
      and r = container_registry
      and hp = "snd (create_singleton_factory (Constructs ContainerClass)
          (snd (SingletonRegistry_get_instance ''container'' container_registry container_heap)))"
      and y = "Instance 1 ContainerClass" and old = 0
      and x = "Instance 1 ContainerClass" and t = ContainerClass]
    register_factory_replaces_cache [where n = "''container''" and new = 0
      and r = container_registry
      and hp = "snd (SingletonRegistry_get_instance ''container'' container_registry container_heap)"
      and y = "Instance 1 ContainerClass" and old = 0
      and x = "Instance 1 ContainerClass" and t = ContainerClass]
  by (simp add: singleton_defs heap_ok_def)


section \<open>BaseService (core/services/base.py)\<close>

text \<open>
  The fields of the base class are a record; the fields a subclass adds are the record's
  extension (\<open>more\<close>). The hook \<^verbatim>\<open>_initialize_specific\<close> is the subclass's code: it
  works on the subclass's fields and either returns or raises, leaving those fields as
  they are at that point. Calls of the logger return normally.
\<close>

record base_service =
  s_feature_name :: string
  s_is_initialized :: bool

type_synonym 'a hook = "'a \<Rightarrow> exn option \<times> 'a"

definition lower_char :: "char \<Rightarrow> char" where
  "lower_char c = (if CHR ''A'' \<le> c \<and> c \<le> CHR ''Z'' then char_of (of_char c + (32::nat)) else c)"

definition derive_feature_name :: "string \<Rightarrow> string" where
  "derive_feature_name class_name =
     map lower_char
       (if 7 \<le> length class_name \<and> drop (length class_name - 7) class_name = ''Service''
        then take (length class_name - 7) class_name else class_name)"

definition BaseService_init :: "string \<Rightarrow> string option \<Rightarrow> 'a \<Rightarrow> 'a base_service_scheme" where
  "BaseService_init class_name feature_name sub =
     \<lparr>s_feature_name =
        (case feature_name of
           None \<Rightarrow> derive_feature_name class_name
         | Some n \<Rightarrow> if n = [] then derive_feature_name class_name else n),
      s_is_initialized = False, \<dots> = sub\<rparr>"

definition feature_name :: "'a base_service_scheme \<Rightarrow> string" where
  "feature_name self = s_feature_name self"

definition is_initialized :: "'a base_service_scheme \<Rightarrow> bool" where
  "is_initialized self = s_is_initialized self"

text \<open>The body of the \<^verbatim>\<open>try\<close> block of \<^verbatim>\<open>initialize\<close>, then the method with its handler.\<close>

definition initialize_body ::
    "'a hook \<Rightarrow> 'a base_service_scheme \<Rightarrow> (exn + bool) \<times> 'a base_service_scheme" where
  "initialize_body hook self =
     (case hook (more self) of
        (Some e, sub) \<Rightarrow> (Inl e, self\<lparr>more := sub\<rparr>)
      | (None, sub) \<Rightarrow> (Inr True, self\<lparr>more := sub, s_is_initialized := True\<rparr>))"

definition initialize ::
    "'a hook \<Rightarrow> 'a base_service_scheme \<Rightarrow> (exn + bool) \<times> 'a base_service_scheme" where
  "initialize hook self =
     (case initialize_body hook self of
        (Inl e, self') \<Rightarrow> (Inr False, self')
      | (Inr b, self') \<Rightarrow> (Inr b, self'))"

text \<open>A caller that calls \<open>initialize\<close> \<open>n\<close> times and keeps the results, newest first.\<close>

fun initialize_calls ::
    "nat \<Rightarrow> 'a hook \<Rightarrow> 'a base_service_scheme \<Rightarrow> (exn + bool) list \<times> 'a base_service_scheme" where
  "initialize_calls 0 hook self = ([], self)"
| "initialize_calls (Suc n) hook self =
     (case initialize_calls n hook self of
        (rs, self') \<Rightarrow> (case initialize hook self' of (r, self'') \<Rightarrow> (r # rs, self'')))"

lemma initialize_cases:
  "initialize hook self =
     (if fst (hook (more self)) = None
      then (Inr True, self\<lparr>more := snd (hook (more self)), s_is_initialized := True\<rparr>)
      else (Inr False, self\<lparr>more := snd (hook (more self))\<rparr>))"
  by (cases "hook (more self)") (auto simp: initialize_def initialize_body_def)

lemma initialize_flag:
  "is_initialized (snd (initialize hook self))
     \<longleftrightarrow> is_initialized self \<or> fst (initialize hook self) = Inr True"
  by (simp add: initialize_cases is_initialized_def)

lemma initialize_calls_flag:
  "is_initialized (snd (initialize_calls n hook self))
     \<longleftrightarrow> is_initialized self \<or> Inr True \<in> set (fst (initialize_calls n hook self))"
proof (induction n)
  case 0
  show ?case by simp
next
  case (Suc n)
  obtain rs s' where c: "initialize_calls n hook self = (rs, s')"
    by (cases "initialize_calls n hook self")
  obtain r s'' where i: "initialize hook s' = (r, s'')"
    by (cases "initialize hook s'")
  from initialize_flag [of hook s'] i
  have "is_initialized s'' \<longleftrightarrow> is_initialized s' \<or> r = Inr True" by simp
  with Suc c i show ?case by auto
qed

text \<open>
  C10. \<open>initialize\<close> always returns a boolean, never an exception. When the hook raises,
  it returns false and leaves \<open>is_initialized\<close> as it was (false, if it was false); when
  the hook returns, it returns true and \<open>is_initialized\<close> is true afterwards. A newly
  constructed service is not initialized, and after any number of \<open>initialize\<close> calls it
  is initialized iff one of those calls returned true.
\<close>

theorem initialize_never_raises:
  "(\<exists>b. fst (initialize hook self) = Inr b)
   \<and> (fst (hook (more self)) \<noteq> None \<longrightarrow>
        fst (initialize hook self) = Inr False
        \<and> is_initialized (snd (initialize hook self)) = is_initialized self)
   \<and> (fst (hook (more self)) = None \<longrightarrow>
        fst (initialize hook self) = Inr True
        \<and> is_initialized (snd (initialize hook self)))
   \<and> \<not> is_initialized (BaseService_init class_name given sub :: 'a base_service_scheme)
   \<and> (is_initialized (snd (initialize_calls n hook (BaseService_init class_name given sub)))
        \<longleftrightarrow> Inr True \<in> set (fst (initialize_calls n hook (BaseService_init class_name given sub))))"
proof -
  have fresh: "\<not> is_initialized (BaseService_init class_name given sub :: 'a base_service_scheme)"
    by (simp add: is_initialized_def BaseService_init_def)
  have seq: "is_initialized (snd (initialize_calls n hook (BaseService_init class_name given sub)))
        \<longleftrightarrow> Inr True \<in> set (fst (initialize_calls n hook (BaseService_init class_name given sub)))"
    using initialize_calls_flag [of n hook "BaseService_init class_name given sub"] fresh
    by simp
  have ret: "\<exists>b. fst (initialize hook self) = Inr b"
    by (cases "fst (hook (more self))") (auto simp: initialize_cases)
  have fails: "fst (hook (more self)) \<noteq> None \<longrightarrow>
        fst (initialize hook self) = Inr False
        \<and> is_initialized (snd (initialize hook self)) = is_initialized self"
    by (simp add: initialize_cases is_initialized_def)
  have succeeds: "fst (hook (more self)) = None \<longrightarrow>
        fst (initialize hook self) = Inr True
        \<and> is_initialized (snd (initialize hook self))"
    by (simp add: initialize_cases is_initialized_def)
  from ret fails succeeds fresh seq show ?thesis by blast
qed

text \<open>A service whose hook fails while a resource is missing and succeeds afterwards.\<close>

definition retry_hook :: "nat hook" where
  "retry_hook k = (if k < 2 then (Some (RuntimeError ''not ready''), Suc k) else (None, k))"

theorem initialize_never_raises_witness:
  "fst (initialize retry_hook (BaseService_init ''HealthService'' (Some ''health'') 0)) = Inr False
   \<and> \<not> is_initialized (snd (initialize retry_hook (BaseService_init ''HealthService'' (Some ''health'') 0)))
   \<and> fst (initialize retry_hook (BaseService_init ''HealthService'' (Some ''health'') 2)) = Inr True
   \<and> is_initialized (snd (initialize retry_hook (BaseService_init ''HealthService'' (Some ''health'') 2)))
   \<and> fst (initialize_calls 3 retry_hook (BaseService_init ''HealthService'' (Some ''health'') 0))
       = [Inr True, Inr False, Inr False]
   \<and> is_initialized (snd (initialize_calls 3 retry_hook (BaseService_init ''HealthService'' (Some ''health'') 0)))"
  using
    initialize_never_raises [where hook = retry_hook
      and self = "BaseService_init ''HealthService'' (Some ''health'') 0"
      and class_name = "''HealthService''" and given = "Some ''health''" and sub = 0 and n = 3]
    initialize_never_raises [where hook = retry_hook
      and self = "BaseService_init ''HealthService'' (Some ''health'') 2"
      and class_name = "''HealthService''" and given = "Some ''health''" and sub = 2 and n = 3]
  by (simp add: retry_hook_def initialize_cases BaseService_init_def is_initialized_def
      eval_nat_numeral)


section \<open>Classes and modules as reflection sees them\<close>

text \<open>
  The discovery code reads classes through reflection only. A \<open>pytype\<close> is what it reads
  of an ancestor: its identity (\<^verbatim>\<open>__module__\<close>, \<^verbatim>\<open>__name__\<close>) and whether
  \<^verbatim>\<open>__abstractmethods__\<close> is present and non-empty. A \<open>pyclass\<close> adds what it reads of
  a class it handles itself: \<^verbatim>\<open>__bases__\<close>, \<^verbatim>\<open>__mro__\<close> (the class first), the
  value of the attribute \<^verbatim>\<open>_service_name\<close> as attribute lookup finds it (also when
  inherited), what calling the class does (the exception its constructor raises, if any,
  and the capabilities an endpoint class resolves from the container while it is
  constructed) and what \<^verbatim>\<open>initialize\<close> does on the new instance: for a class that
  inherits \<^verbatim>\<open>BaseService.initialize\<close>, the exception its hook raises, if any; for a
  class that overrides the method, its result.

  A module's namespace is its dictionary, in the order of declaration, each name once.
  \<^verbatim>\<open>inspect.getmembers(module, predicate)\<close> returns the (name, value) pairs whose
  value satisfies the predicate, sorted by name.
\<close>

record pytype =
  t_id :: cid
  t_abstract :: bool

datatype init_impl =
    Inherited "exn option"
  | Overridden "exn + bool"

record pyclass =
  c_id :: cid
  c_abstract :: bool
  c_bases :: "pytype list"
  c_mro :: "pytype list"
  c_service_name :: "string option"
  c_new_raises :: "exn option"
  c_initialize :: init_impl
  c_injects :: "cid list"

datatype member = MClass pyclass | MObject pyobject | MOther

type_synonym pymodule = "(string \<times> member) list"

definition isclass :: "member \<Rightarrow> bool" where
  "isclass obj = (case obj of MClass c \<Rightarrow> True | _ \<Rightarrow> False)"

definition getmembers :: "pymodule \<Rightarrow> (member \<Rightarrow> bool) \<Rightarrow> (string \<times> member) list" where
  "getmembers module predicate = sort_key fst (filter (\<lambda>p. predicate (snd p)) module)"

definition BaseServiceClass :: cid where
  "BaseServiceClass = Cid ''backend.core.services.base'' ''BaseService''"

definition issubclass :: "pyclass \<Rightarrow> cid \<Rightarrow> bool" where
  "issubclass c base \<longleftrightarrow> base \<in> set (map t_id (c_mro c))"

section \<open>BaseServiceDetector (core/di/service_detector.py)\<close>

definition inherits_from_base_service :: "pyclass \<Rightarrow> bool" where
  "inherits_from_base_service obj = issubclass obj BaseServiceClass"

definition is_not_base_service_itself :: "pyclass \<Rightarrow> bool" where
  "is_not_base_service_itself obj \<longleftrightarrow> c_id obj \<noteq> BaseServiceClass"

definition has_service_name_attribute :: "pyclass \<Rightarrow> bool" where
  "has_service_name_attribute obj \<longleftrightarrow> c_service_name obj \<noteq> None"

definition service_criteria :: "(pyclass \<Rightarrow> bool) list" where
  "service_criteria =
     [inherits_from_base_service, is_not_base_service_itself, has_service_name_attribute]"

definition is_service_class :: "member \<Rightarrow> bool" where
  "is_service_class obj =
     (case obj of
        MClass c \<Rightarrow> list_all (\<lambda>criterion. criterion c) service_criteria
      | _ \<Rightarrow> False)"

fun collect_service_classes :: "(string \<times> member) list \<Rightarrow> pyclass list" where
  "collect_service_classes [] = []"
| "collect_service_classes ((name, obj) # rest) =
     (case obj of
        MClass c \<Rightarrow>
          (if is_service_class obj then c # collect_service_classes rest
           else collect_service_classes rest)
      | _ \<Rightarrow> collect_service_classes rest)"

definition get_service_classes :: "pymodule \<Rightarrow> pyclass list" where
  "get_service_classes module = collect_service_classes (getmembers module isclass)"

text \<open>The wording of the specification: the service classes in the order of declaration.\<close>

definition service_classes_in_declaration_order :: "pymodule \<Rightarrow> pyclass list" where
  "service_classes_in_declaration_order module =
     [c. (name, MClass c) \<leftarrow> module,
         inherits_from_base_service c \<and> is_not_base_service_itself c
         \<and> has_service_name_attribute c]"

lemma is_service_class_iff:
  "is_service_class obj \<longleftrightarrow>
     (\<exists>c. obj = MClass c \<and> inherits_from_base_service c \<and> is_not_base_service_itself c
        \<and> has_service_name_attribute c)"
  by (cases obj) (auto simp: is_service_class_def service_criteria_def)

lemma collect_declaration_order:
  "collect_service_classes xs = service_classes_in_declaration_order xs"
  unfolding service_classes_in_declaration_order_def
  by (induction xs rule: collect_service_classes.induct)
    (auto simp: is_service_class_iff split: member.splits)

lemma collect_filter_isclass:
  "collect_service_classes (filter (\<lambda>p. isclass (snd p)) xs) = collect_service_classes xs"
  by (induction xs rule: collect_service_classes.induct)
    (auto simp: isclass_def split: member.splits)

lemma collect_append:
  "collect_service_classes (xs @ ys) = collect_service_classes xs @ collect_service_classes ys"
  by (induction xs rule: collect_service_classes.induct) (auto split: member.splits)

lemma collect_mset:
  "mset xs = mset ys \<Longrightarrow> mset (collect_service_classes xs) = mset (collect_service_classes ys)"
proof (induction xs arbitrary: ys)
  case Nil
  then show ?case by simp
next
  case (Cons x xs)
  then have "x \<in> set ys"
    by (metis list.set_intros(1) mset_eq_setD)
  then obtain us vs where ys: "ys = us @ x # vs"
    by (meson split_list)
  with Cons.prems have "mset xs = mset (us @ vs)" by simp
  from Cons.IH [OF this]
  have ih: "mset (collect_service_classes xs) = mset (collect_service_classes (us @ vs))" .
  have "mset (collect_service_classes (x # xs))
      = mset (collect_service_classes [x]) + mset (collect_service_classes xs)"
    using collect_append [of "[x]" xs] by simp
  also have "\<dots> = mset (collect_service_classes [x]) + mset (collect_service_classes (us @ vs))"
    using ih by simp
  also have "\<dots> = mset (collect_service_classes (us @ [x] @ vs))"
    by (simp only: collect_append mset_append ac_simps)
  finally show ?case using ys by simp
qed

lemma get_service_classes_sorted:
  "get_service_classes module = collect_service_classes (sort_key fst module)"
proof -
  have "get_service_classes module
      = collect_service_classes (filter (\<lambda>p. isclass (snd p)) (sort_key fst module))"
    by (simp add: get_service_classes_def getmembers_def filter_sort)
  then show ?thesis by (simp add: collect_filter_isclass)
qed

lemma set_declaration_order:
  "set (service_classes_in_declaration_order module)
     = {c. (\<exists>name. (name, MClass c) \<in> set module) \<and> inherits_from_base_service c
          \<and> is_not_base_service_itself c \<and> has_service_name_attribute c}"
  unfolding service_classes_in_declaration_order_def
  by (auto split: member.splits) 

text \<open>
  C4, amended. \<open>get_service_classes\<close> returns exactly the class members of the namespace
  that are subclasses of BaseService, are not BaseService itself and carry the service-name
  attribute, each as often as the namespace binds it, in ascending order of member name
  (the order of \<^verbatim>\<open>inspect.getmembers\<close>): the result is what a scan in declaration
  order yields on the namespace sorted by name. Where the namespace is declared in
  ascending order of name, this is the declaration order.
\<close>

theorem get_service_classes_by_name:
  "get_service_classes module = service_classes_in_declaration_order (sort_key fst module)
   \<and> mset (get_service_classes module) = mset (service_classes_in_declaration_order module)
   \<and> set (get_service_classes module)
       = {c. (\<exists>name. (name, MClass c) \<in> set module) \<and> inherits_from_base_service c
            \<and> is_not_base_service_itself c \<and> has_service_name_attribute c}
   \<and> (sorted (map fst module) \<longrightarrow>
        get_service_classes module = service_classes_in_declaration_order module)"
proof -
  have a: "get_service_classes module = service_classes_in_declaration_order (sort_key fst module)"
    by (simp add: get_service_classes_sorted collect_declaration_order)
  have "mset (sort_key fst module) = mset module" by simp
  from collect_mset [OF this]
  have b: "mset (get_service_classes module) = mset (service_classes_in_declaration_order module)"
    by (simp add: get_service_classes_sorted collect_declaration_order)
  have c: "set (get_service_classes module)
       = {c. (\<exists>name. (name, MClass c) \<in> set module) \<and> inherits_from_base_service c
            \<and> is_not_base_service_itself c \<and> has_service_name_attribute c}"
    using b set_declaration_order [of module] by (metis set_mset_mset)
  have d: "sorted (map fst module) \<longrightarrow>
        get_service_classes module = service_classes_in_declaration_order module"
    using a by (simp add: sort_key_id_if_sorted)
  from a b c d show ?thesis by blast
qed

text \<open>Two services of one module, declared in the order Zeta, Alpha.\<close>

definition demo_service_class :: "cid \<Rightarrow> string \<Rightarrow> pyclass" where
  "demo_service_class i name =
     \<lparr>c_id = i, c_abstract = False,
      c_bases = [\<lparr>t_id = BaseServiceClass, t_abstract = False\<rparr>],
      c_mro = [\<lparr>t_id = i, t_abstract = False\<rparr>, \<lparr>t_id = BaseServiceClass, t_abstract = False\<rparr>],
      c_service_name = Some name, c_new_raises = None, c_initialize = Inherited None,
      c_injects = []\<rparr>"

definition ZetaService :: pyclass where
  "ZetaService = demo_service_class (Cid ''features.demo.service'' ''ZetaService'') ''zeta''"

definition AlphaService :: pyclass where
  "AlphaService = demo_service_class (Cid ''features.demo.service'' ''AlphaService'') ''alpha''"

definition demo_module :: pymodule where
  "demo_module =
     [(''Service'', MOther), (''ZetaService'', MClass ZetaService),
      (''AlphaService'', MClass AlphaService)]"

lemmas detector_defs =
  get_service_classes_def getmembers_def isclass_def is_service_class_def service_criteria_def
  inherits_from_base_service_def is_not_base_service_itself_def has_service_name_attribute_def
  issubclass_def BaseServiceClass_def service_classes_in_declaration_order_def

text \<open>
  C4, as stated, fails on the order: the classes come back sorted by member name, whatever
  the order of declaration.
\<close>

theorem declaration_order_counterexample:
  "get_service_classes demo_module = [AlphaService, ZetaService]
   \<and> service_classes_in_declaration_order demo_module = [ZetaService, AlphaService]
   \<and> get_service_classes demo_module \<noteq> service_classes_in_declaration_order demo_module"
  by (simp add: detector_defs demo_module_def ZetaService_def AlphaService_def demo_service_class_def)

theorem get_service_classes_by_name_witness:
  "get_service_classes (rev demo_module) = [AlphaService, ZetaService]
   \<and> service_classes_in_declaration_order (rev demo_module) = [AlphaService, ZetaService]"
  using get_service_classes_by_name [of "rev demo_module"]
  by (simp add: detector_defs demo_module_def ZetaService_def AlphaService_def demo_service_class_def)


section \<open>Interface detection and registration (core/di/interface_manager.py)\<close>

subsection \<open>AbstractMethodInterfaceStrategy\<close>

definition is_interface :: "pytype \<Rightarrow> bool" where
  "is_interface class_type \<longleftrightarrow> t_abstract class_type \<and> t_id class_type \<noteq> BaseServiceClass"

definition follows_interface_naming_convention :: "pytype \<Rightarrow> bool" where
  "follows_interface_naming_convention class_type =
     (let name = cid_name (t_id class_type)
      in take 1 name = ''I''
         \<and> ((7 \<le> length name \<and> drop (length name - 7) name = ''Service'') \<or> length name > 1))"

definition is_interface_in_mro :: "pytype \<Rightarrow> bool" where
  "is_interface_in_mro class_type \<longleftrightarrow>
     t_abstract class_type \<and> t_id class_type \<noteq> BaseServiceClass
     \<and> follows_interface_naming_convention class_type"

definition get_interfaces :: "pyclass \<Rightarrow> pytype list" where
  "get_interfaces service_class =
     filter is_interface (c_bases service_class) @ filter is_interface_in_mro (c_mro service_class)"

subsection \<open>InterfaceRegistrationManager\<close>

text \<open>
  The manager is built over any \<^verbatim>\<open>IContainer\<close> and any detection strategy. Of the
  container it calls \<^verbatim>\<open>register_instance\<close> only, here a function that returns the
  container after the call or the exception raised; a strategy returns the interfaces or
  raises.
\<close>

type_synonym 'k icontainer_register = "cid \<Rightarrow> pyobject \<Rightarrow> 'k \<Rightarrow> exn + 'k"

type_synonym detection_strategy = "pyclass \<Rightarrow> exn + pytype list"

definition AbstractMethodInterfaceStrategy :: detection_strategy where
  "AbstractMethodInterfaceStrategy service_class = Inr (get_interfaces service_class)"

definition register_single_interface ::
    "'k icontainer_register \<Rightarrow> pytype \<Rightarrow> pyobject \<Rightarrow> 'k \<Rightarrow> bool \<times> 'k" where
  "register_single_interface reg interface service_instance k =
     (case reg (t_id interface) service_instance k of
        Inr k' \<Rightarrow> (True, k')
      | Inl e \<Rightarrow> (False, k))"

fun register_each ::
    "'k icontainer_register \<Rightarrow> pytype list \<Rightarrow> pyobject \<Rightarrow> nat \<Rightarrow> 'k \<Rightarrow> nat \<times> 'k" where
  "register_each reg [] service_instance success_count k = (success_count, k)"
| "register_each reg (interface # rest) service_instance success_count k =
     (case register_single_interface reg interface service_instance k of
        (True, k') \<Rightarrow> register_each reg rest service_instance (success_count + 1) k'
      | (False, k') \<Rightarrow> register_each reg rest service_instance success_count k')"

definition register_service_interfaces_body ::
    "'k icontainer_register \<Rightarrow> detection_strategy \<Rightarrow> pyclass \<Rightarrow> pyobject \<Rightarrow> 'k
       \<Rightarrow> (exn + bool) \<times> 'k" where
  "register_service_interfaces_body reg strategy service_class service_instance k =
     (case strategy service_class of
        Inl e \<Rightarrow> (Inl e, k)
      | Inr interfaces \<Rightarrow>
         (case register_each reg interfaces service_instance 0 k of
            (success_count, k') \<Rightarrow>
              (Inr (if interfaces \<noteq> [] then success_count = length interfaces else True), k')))"

definition register_service_interfaces ::
    "'k icontainer_register \<Rightarrow> detection_strategy \<Rightarrow> pyclass \<Rightarrow> pyobject \<Rightarrow> 'k
       \<Rightarrow> (exn + bool) \<times> 'k" where
  "register_service_interfaces reg strategy service_class service_instance k =
     (case register_service_interfaces_body reg strategy service_class service_instance k of
        (Inl e, k') \<Rightarrow> (Inr False, k')
      | (Inr b, k') \<Rightarrow> (Inr b, k'))"

text \<open>
  Two implementations of \<^verbatim>\<open>IContainer.register_instance\<close>: the one of
  \<^verbatim>\<open>Container\<close>, which never raises, and one that raises the exception \<open>fails c\<close> for
  the capabilities where \<open>fails\<close> gives one and is the \<^verbatim>\<open>Container\<close>'s otherwise.
\<close>

definition Container_register_instance :: "container icontainer_register" where
  "Container_register_instance interface inst c = Inr (register_instance interface inst c)"

definition failing_register_instance :: "(cid \<Rightarrow> exn option) \<Rightarrow> container icontainer_register" where
  "failing_register_instance fails interface inst c =
     (case fails interface of
        Some e \<Rightarrow> Inl e
      | None \<Rightarrow> Inr (register_instance interface inst c))"

lemma register_single_failing:
  "register_single_interface (failing_register_instance fails) i inst c =
     (case fails (t_id i) of
        Some e \<Rightarrow> (False, c)
      | None \<Rightarrow> (True, register_instance (t_id i) inst c))"
  by (simp add: register_single_interface_def failing_register_instance_def split: option.splits)

lemma length_filter_all:
  "length (filter P xs) = length xs \<longleftrightarrow> (\<forall>x \<in> set xs. P x)"
proof (induction xs)
  case Nil
  show ?case by simp
next
  case (Cons a xs)
  have "length (filter P xs) \<le> length xs" by simp
  then have "length (filter P xs) \<noteq> Suc (length xs)" by arith
  with Cons show ?case by auto
qed

lemma register_each_failing:
  "register_each (failing_register_instance fails) is inst n c = (n', c') \<Longrightarrow>
     n' = n + length (filter (\<lambda>i. fails (t_id i) = None) is)
     \<and> (\<forall>i. c_singletons c' i =
           (if i \<in> t_id ` set is \<and> fails i = None then Some inst else c_singletons c i))
     \<and> c_services c' = c_services c \<and> c_factories c' = c_factories c"
proof (induction "is" arbitrary: n c)
  case Nil
  then show ?case by simp
next
  case (Cons a "is")
  show ?case
  proof (cases "fails (t_id a)")
    case None
    with Cons.prems
    have "register_each (failing_register_instance fails) is inst (n + 1)
            (register_instance (t_id a) inst c) = (n', c')"
      by (simp add: register_single_failing)
    from Cons.IH [OF this] None show ?thesis
      by (auto simp: register_instance_def)
  next
    case (Some e)
    with Cons.prems
    have "register_each (failing_register_instance fails) is inst n c = (n', c')"
      by (simp add: register_single_failing)
    from Cons.IH [OF this] Some show ?thesis
      by auto
  qed
qed

lemma register_service_interfaces_returns:
  "\<exists>b. fst (register_service_interfaces reg strategy cls inst k) = Inr b"
  by (auto simp: register_service_interfaces_def split: prod.splits sum.splits)

text \<open>
  C5. \<open>register_service_interfaces\<close> returns a boolean for every container and every
  strategy, never an exception. With the default strategy and a container whose
  \<open>register_instance\<close> raises for some capabilities, it returns true iff no detected
  capability is one of those (so true when none is detected, and then the container is
  untouched); every detected capability whose registration does not raise resolves to the
  service instance afterwards, whatever happened to the others; and the entry of a
  capability whose registration raises is as it was.
\<close>

theorem register_service_interfaces_partial:
  "(\<exists>b. fst (register_service_interfaces reg strategy cls inst k) = Inr b)
   \<and> (case register_service_interfaces (failing_register_instance fails)
              AbstractMethodInterfaceStrategy cls inst c of
        (r, c') \<Rightarrow>
          r = Inr (\<forall>i \<in> set (get_interfaces cls). fails (t_id i) = None)
          \<and> (\<forall>i \<in> set (get_interfaces cls). fails (t_id i) = None \<longrightarrow>
                (\<forall>h. resolve (t_id i) c' h = (Inr inst, c', h)))
          \<and> (\<forall>i \<in> set (get_interfaces cls). fails (t_id i) \<noteq> None \<longrightarrow>
                c_singletons c' (t_id i) = c_singletons c (t_id i))
          \<and> (get_interfaces cls = [] \<longrightarrow> r = Inr True \<and> c' = c))"
proof -
  obtain n' c' where loop:
    "register_each (failing_register_instance fails) (get_interfaces cls) inst 0 c = (n', c')"
    by (cases "register_each (failing_register_instance fails) (get_interfaces cls) inst 0 c")
  from register_each_failing [OF loop]
  have count: "n' = length (filter (\<lambda>i. fails (t_id i) = None) (get_interfaces cls))"
    and tab: "\<And>i. c_singletons c' i =
           (if i \<in> t_id ` set (get_interfaces cls) \<and> fails i = None then Some inst
            else c_singletons c i)"
    and rest: "c_services c' = c_services c" "c_factories c' = c_factories c"
    by simp_all
  have res: "register_service_interfaces (failing_register_instance fails)
              AbstractMethodInterfaceStrategy cls inst c
      = (Inr (if get_interfaces cls \<noteq> [] then n' = length (get_interfaces cls) else True), c')"
    using loop
    by (simp add: register_service_interfaces_def register_service_interfaces_body_def
        AbstractMethodInterfaceStrategy_def)
  have all: "(n' = length (get_interfaces cls))
      \<longleftrightarrow> (\<forall>i \<in> set (get_interfaces cls). fails (t_id i) = None)"
    unfolding count by (rule length_filter_all)
  have r: "(if get_interfaces cls \<noteq> [] then n' = length (get_interfaces cls) else True)
      \<longleftrightarrow> (\<forall>i \<in> set (get_interfaces cls). fails (t_id i) = None)"
    using all by auto
  have ok: "\<forall>i \<in> set (get_interfaces cls). fails (t_id i) = None \<longrightarrow>
                (\<forall>h. resolve (t_id i) c' h = (Inr inst, c', h))"
    using tab by (auto intro!: resolve_singleton)
  have bad: "\<forall>i \<in> set (get_interfaces cls). fails (t_id i) \<noteq> None \<longrightarrow>
                c_singletons c' (t_id i) = c_singletons c (t_id i)"
    using tab by auto
  have empty: "get_interfaces cls = [] \<longrightarrow> c' = c"
    using loop by auto
  show ?thesis
    using register_service_interfaces_returns [of reg strategy cls inst k] r ok bad empty
    unfolding res by simp
qed

text \<open>
  The health feature's service as reflection shows it:
  \<^verbatim>\<open>class HealthService(BaseService, IHealthService)\<close>, with
  \<^verbatim>\<open>BaseService(IService)\<close> and both interfaces abstract.
\<close>

definition IServiceClass :: cid where
  "IServiceClass = Cid ''backend.core.interfaces'' ''IService''"

definition IHealthServiceClass :: cid where
  "IHealthServiceClass = Cid ''backend.features.health.service'' ''IHealthService''"

definition HealthServiceClass :: cid where
  "HealthServiceClass = Cid ''backend.features.health.service'' ''HealthService''"

definition HealthService :: pyclass where
  "HealthService =
     \<lparr>c_id = HealthServiceClass, c_abstract = False,
      c_bases = [\<lparr>t_id = BaseServiceClass, t_abstract = False\<rparr>,
                 \<lparr>t_id = IHealthServiceClass, t_abstract = True\<rparr>],
      c_mro = [\<lparr>t_id = HealthServiceClass, t_abstract = False\<rparr>,
               \<lparr>t_id = BaseServiceClass, t_abstract = False\<rparr>,
               \<lparr>t_id = IServiceClass, t_abstract = True\<rparr>,
               \<lparr>t_id = IHealthServiceClass, t_abstract = True\<rparr>,
               \<lparr>t_id = Cid ''abc'' ''ABC'', t_abstract = False\<rparr>,
               \<lparr>t_id = Cid ''builtins'' ''object'', t_abstract = False\<rparr>],
      c_service_name = Some ''health'', c_new_raises = None, c_initialize = Inherited None,
      c_injects = []\<rparr>"

definition refuse_IService :: "cid \<Rightarrow> exn option" where
  "refuse_IService i = (if i = IServiceClass then Some (RuntimeError ''refused'') else None)"

lemmas interface_defs =
  is_interface_def follows_interface_naming_convention_def is_interface_in_mro_def
  get_interfaces_def AbstractMethodInterfaceStrategy_def register_single_interface_def
  register_service_interfaces_body_def register_service_interfaces_def
  failing_register_instance_def Container_register_instance_def
  IServiceClass_def IHealthServiceClass_def HealthServiceClass_def HealthService_def
  refuse_IService_def BaseServiceClass_def

theorem register_service_interfaces_partial_witness:
  "get_interfaces HealthService
     = [\<lparr>t_id = IHealthServiceClass, t_abstract = True\<rparr>,
        \<lparr>t_id = IServiceClass, t_abstract = True\<rparr>,
        \<lparr>t_id = IHealthServiceClass, t_abstract = True\<rparr>]
   \<and> fst (register_service_interfaces (failing_register_instance refuse_IService)
          AbstractMethodInterfaceStrategy HealthService (Instance 5 HealthServiceClass)
          Container_init) = Inr False
   \<and> fst (resolve IHealthServiceClass
        (snd (register_service_interfaces (failing_register_instance refuse_IService)
          AbstractMethodInterfaceStrategy HealthService (Instance 5 HealthServiceClass)
          Container_init)) 6) = Inr (Instance 5 HealthServiceClass)
   \<and> fst (resolve IServiceClass
        (snd (register_service_interfaces (failing_register_instance refuse_IService)
          AbstractMethodInterfaceStrategy HealthService (Instance 5 HealthServiceClass)
          Container_init)) 6) = Inl (ValueError ''Service IService is not registered'')
   \<and> fst (register_service_interfaces (failing_register_instance (\<lambda>i. None))
          AbstractMethodInterfaceStrategy HealthService (Instance 5 HealthServiceClass)
          Container_init) = Inr True"
  using
    register_service_interfaces_partial [where reg = "failing_register_instance refuse_IService"
      and strategy = AbstractMethodInterfaceStrategy and cls = HealthService
      and inst = "Instance 5 HealthServiceClass" and k = Container_init
      and fails = refuse_IService and c = Container_init]
    register_service_interfaces_partial [where reg = "failing_register_instance (\<lambda>i. None)"
      and strategy = AbstractMethodInterfaceStrategy and cls = HealthService
      and inst = "Instance 5 HealthServiceClass" and k = Container_init
      and fails = "\<lambda>i. None" and c = Container_init]
  by (simp add: interface_defs Container_init_def register_instance_def resolve_def
      not_registered_def)


section \<open>ServiceRegistry, ServiceDiscovery, RouteManager (core/di/registry.py)\<close>

text \<open>
  The state these classes work on: the allocation counter, the import system (what
  \<^verbatim>\<open>importlib.import_module\<close> gives for a module path: the module, or the exception
  it raises, \<^verbatim>\<open>ImportError\<close> when there is no such module), the process-wide
  \<^verbatim>\<open>Container\<close>, the dictionary of the process-wide \<^verbatim>\<open>ServiceRegistry\<close> in
  insertion order, and the clock, a counter that advances at every reading.
\<close>

record world =
  w_next :: nat
  w_modules :: "string \<Rightarrow> exn + pymodule"
  w_container :: container
  w_services :: "(string \<times> pyobject) list"
  w_clock :: nat

definition SERVICE_MODULE_NAME :: string where "SERVICE_MODULE_NAME = ''service''"
definition ROUTES_MODULE_NAME :: string where "ROUTES_MODULE_NAME = ''routes''"

definition SERVICE_VAR_PATTERN :: "string \<Rightarrow> string" where
  "SERVICE_VAR_PATTERN name = ''_'' @ name @ ''_service''"

definition import_module :: "string \<Rightarrow> world \<Rightarrow> exn + pymodule" where
  "import_module path w = w_modules w path"

subsection \<open>ServiceRegistry\<close>

definition ServiceRegistry_register_service :: "string \<Rightarrow> pyobject \<Rightarrow> world \<Rightarrow> bool \<times> world" where
  "ServiceRegistry_register_service service_name service_instance w =
     (True, w\<lparr>w_services := AList.update service_name service_instance (w_services w),
              w_container := register_instance (i_type service_instance) service_instance
                               (w_container w)\<rparr>)"


definition get_all_services :: "world \<Rightarrow> (string \<times> pyobject) list" where
  "get_all_services w = w_services w"


definition ServiceRegistry_clear :: "world \<Rightarrow> world" where
  "ServiceRegistry_clear w = w\<lparr>w_services := []\<rparr>"

subsection \<open>RouteManager\<close>

definition BaseRoutesClass :: cid where
  "BaseRoutesClass = Cid ''backend.core.web.routes'' ''BaseRoutes''"

definition load_routes_module :: "string \<Rightarrow> world \<Rightarrow> exn + pymodule option" where
  "load_routes_module module_path w =
     (case import_module (module_path @ ''.'' @ ROUTES_MODULE_NAME) w of
        Inl (ImportError m) \<Rightarrow> Inr None
      | Inl e \<Rightarrow> Inl e
      | Inr routes_module \<Rightarrow> Inr (Some routes_module))"

definition register_service_with_routes ::
    "string \<Rightarrow> string \<Rightarrow> pyobject \<Rightarrow> world \<Rightarrow> world" where
  "register_service_with_routes routes_name service_name service_instance w =
     (case w_modules w routes_name of
        Inr routes_module \<Rightarrow>
          w\<lparr>w_modules := (w_modules w)
               (routes_name := Inr (AList.update (SERVICE_VAR_PATTERN service_name)
                                      (MObject service_instance) routes_module))\<rparr>
      | Inl e \<Rightarrow> w)"

definition is_route_class :: "pyclass \<Rightarrow> string \<Rightarrow> bool" where
  "is_route_class obj routes_name \<longleftrightarrow>
     cid_module (c_id obj) = routes_name \<and> issubclass obj BaseRoutesClass
     \<and> c_id obj \<noteq> BaseRoutesClass"

text \<open>
  Calling an endpoint class: the constructor of \<^verbatim>\<open>BaseRoutes\<close> resolves each
  annotated capability from the container and raises \<^verbatim>\<open>ValueError\<close> at the first one
  it cannot inject.
\<close>

fun inject_all :: "cid list \<Rightarrow> container \<Rightarrow> nat \<Rightarrow> exn option \<times> container \<times> nat" where
  "inject_all [] c h = (None, c, h)"
| "inject_all (i # rest) c h =
     (case resolve i c h of
        (Inl e, c', h') \<Rightarrow> (Some (ValueError ''Failed to inject required service''), c', h')
      | (Inr x, c', h') \<Rightarrow> inject_all rest c' h')"

definition new_route_instance :: "pyclass \<Rightarrow> world \<Rightarrow> exn option \<times> world" where
  "new_route_instance obj w =
     (case c_new_raises obj of
        Some e \<Rightarrow> (Some e, w)
      | None \<Rightarrow>
         (case inject_all (c_injects obj) (w_container w) (Suc (w_next w)) of
            (r, c', h') \<Rightarrow> (r, w\<lparr>w_container := c', w_next := h'\<rparr>)))"

fun instantiate_each :: "(string \<times> member) list \<Rightarrow> string \<Rightarrow> world \<Rightarrow> world" where
  "instantiate_each [] routes_name w = w"
| "instantiate_each ((name, obj) # rest) routes_name w =
     (case obj of
        MClass c \<Rightarrow>
          (if is_route_class c routes_name
           then (case new_route_instance c w of
                   (Some e, w') \<Rightarrow> w'
                 | (None, w') \<Rightarrow> instantiate_each rest routes_name w')
           else instantiate_each rest routes_name w)
      | _ \<Rightarrow> instantiate_each rest routes_name w)"

definition instantiate_route_classes :: "string \<Rightarrow> world \<Rightarrow> world" where
  "instantiate_route_classes routes_name w =
     (case w_modules w routes_name of
        Inr routes_module \<Rightarrow> instantiate_each (getmembers routes_module isclass) routes_name w
      | Inl e \<Rightarrow> w)"

definition setup_routes :: "string \<Rightarrow> string \<Rightarrow> pyobject \<Rightarrow> world \<Rightarrow> world" where
  "setup_routes module_path service_name service_instance w =
     (case load_routes_module module_path w of
        Inl e \<Rightarrow> w
      | Inr None \<Rightarrow> w
      | Inr (Some routes_module) \<Rightarrow>
          instantiate_route_classes (module_path @ ''.'' @ ROUTES_MODULE_NAME)
            (register_service_with_routes (module_path @ ''.'' @ ROUTES_MODULE_NAME)
               service_name service_instance w))"

subsection \<open>ServiceDiscovery\<close>

definition load_service_module :: "string \<Rightarrow> world \<Rightarrow> exn + pymodule option" where
  "load_service_module module_path w =
     (case import_module (module_path @ ''.'' @ SERVICE_MODULE_NAME) w of
        Inl (ImportError m) \<Rightarrow> Inr None
      | Inl e \<Rightarrow> Inl e
      | Inr service_module \<Rightarrow> Inr (Some service_module))"

definition new_service_instance :: "pyclass \<Rightarrow> world \<Rightarrow> (exn + pyobject) \<times> world" where
  "new_service_instance service_class w =
     (case c_new_raises service_class of
        Some e \<Rightarrow> (Inl e, w)
      | None \<Rightarrow> (Inr (Instance (w_next w) (c_id service_class)), w\<lparr>w_next := Suc (w_next w)\<rparr>))"

definition instance_initialize :: "pyclass \<Rightarrow> exn + bool" where
  "instance_initialize service_class =
     (case c_initialize service_class of
        Inherited raised \<Rightarrow>
          fst (initialize (\<lambda>sub. (raised, sub))
                 (BaseService_init (cid_name (c_id service_class)) None ()))
      | Overridden result \<Rightarrow> result)"

definition register_service_class :: "pyclass \<Rightarrow> string \<Rightarrow> world \<Rightarrow> bool \<times> world" where
  "register_service_class service_class module_path w =
     (case new_service_instance service_class w of
        (Inl e, w1) \<Rightarrow> (False, w1)
      | (Inr service_instance, w1) \<Rightarrow>
         (case instance_initialize service_class of
            Inl e \<Rightarrow> (False, w1)
          | Inr False \<Rightarrow> (False, w1)
          | Inr True \<Rightarrow>
             (case c_service_name service_class of
                None \<Rightarrow> (False, w1)
              | Some service_name \<Rightarrow>
                 (case ServiceRegistry_register_service service_name service_instance w1 of
                    (False, w2) \<Rightarrow> (False, w2)
                  | (True, w2) \<Rightarrow>
                     (case register_service_interfaces Container_register_instance
                             AbstractMethodInterfaceStrategy service_class service_instance
                             (w_container w2) of
                        (r, c3) \<Rightarrow>
                          (True, setup_routes module_path service_name service_instance
                                   (w2\<lparr>w_container := c3\<rparr>)))))))"

fun register_service_classes :: "pyclass list \<Rightarrow> string \<Rightarrow> world \<Rightarrow> bool \<times> world" where
  "register_service_classes [] module_path w = (True, w)"
| "register_service_classes (service_class # rest) module_path w =
     (case register_service_class service_class module_path w of
        (False, w') \<Rightarrow> (False, w')
      | (True, w') \<Rightarrow> register_service_classes rest module_path w')"

definition discover_and_register_services :: "string \<Rightarrow> world \<Rightarrow> bool \<times> world" where
  "discover_and_register_services module_path w =
     (case load_service_module module_path w of
        Inl e \<Rightarrow> (False, w)
      | Inr None \<Rightarrow> (True, w)
      | Inr (Some service_module) \<Rightarrow>
          register_service_classes (get_service_classes service_module) module_path w)"


subsection \<open>FeatureManager\<close>

record feature =
  f_module_path :: string
  f_status :: string
  f_registered_at :: nat

type_synonym features = "(string \<times> feature) list"



record features_status =
  total_features :: nat
  features :: features
  services :: "string list"



subsection \<open>What route binding and interface registration leave alone\<close>





lemma no_service_classes:
  assumes "\<forall>(name, obj) \<in> set md. \<not> is_service_class obj"
  shows "get_service_classes md = []"
proof -
  have "set (service_classes_in_declaration_order (sort_key fst md)) = {}"
    using assms unfolding set_declaration_order
    by (auto simp: is_service_class_iff)
  then show ?thesis
    by (simp add: get_service_classes_sorted collect_declaration_order)
qed

text \<open>
  C6. When the service module of a namespace path is absent (its import raises
  \<^verbatim>\<open>ImportError\<close>), or is there and has no member that is a service class,
  \<open>discover_and_register_services\<close> returns true and changes nothing: the service
  registry (and everything else) is as before the call.
\<close>

theorem discovery_of_absence:
  "((\<exists>m. import_module (path @ ''.service'') w = Inl (ImportError m))
     \<or> (\<exists>md. import_module (path @ ''.service'') w = Inr md
              \<and> (\<forall>(name, obj) \<in> set md. \<not> is_service_class obj)))
   \<longrightarrow> discover_and_register_services path w = (True, w)
       \<and> get_all_services (snd (discover_and_register_services path w)) = get_all_services w"
proof
  assume "(\<exists>m. import_module (path @ ''.service'') w = Inl (ImportError m))
     \<or> (\<exists>md. import_module (path @ ''.service'') w = Inr md
              \<and> (\<forall>(name, obj) \<in> set md. \<not> is_service_class obj))"
  then have "discover_and_register_services path w = (True, w)"
  proof
    assume "\<exists>m. import_module (path @ ''.service'') w = Inl (ImportError m)"
    then show ?thesis
      by (auto simp: discover_and_register_services_def load_service_module_def
          SERVICE_MODULE_NAME_def)
  next
    assume "\<exists>md. import_module (path @ ''.service'') w = Inr md
              \<and> (\<forall>(name, obj) \<in> set md. \<not> is_service_class obj)"
    then obtain md where md: "import_module (path @ ''.service'') w = Inr md"
      and none: "\<forall>(name, obj) \<in> set md. \<not> is_service_class obj" by blast
    from none have "get_service_classes md = []" by (rule no_service_classes)
    with md show ?thesis
      by (simp add: discover_and_register_services_def load_service_module_def
          SERVICE_MODULE_NAME_def)
  qed
  then show "discover_and_register_services path w = (True, w)
       \<and> get_all_services (snd (discover_and_register_services path w)) = get_all_services w"
    by simp
qed



text \<open>
  A process with one feature package, \<^verbatim>\<open>features.demo\<close>, whose service module is
  given; nothing is registered yet.
\<close>

definition demo_world :: "pymodule \<Rightarrow> world" where
  "demo_world service_module =
     \<lparr>w_next = 0,
      w_modules = (\<lambda>p. Inl (ImportError (''No module named '' @ p)))
                    (''features.demo.service'' := Inr service_module),
      w_container = Container_init, w_services = [], w_clock = 0\<rparr>"

definition FailingZetaService :: pyclass where
  "FailingZetaService = ZetaService\<lparr>c_initialize := Inherited (Some (RuntimeError ''no database''))\<rparr>"

definition failing_module :: pymodule where
  "failing_module =
     [(''AlphaService'', MClass AlphaService), (''ZetaService'', MClass FailingZetaService)]"





text \<open>A service module that imports \<^verbatim>\<open>BaseService\<close> and declares no service.\<close>

definition BaseServiceItself :: pyclass where
  "BaseServiceItself =
     \<lparr>c_id = BaseServiceClass, c_abstract = False,
      c_bases = [\<lparr>t_id = IServiceClass, t_abstract = True\<rparr>],
      c_mro = [\<lparr>t_id = BaseServiceClass, t_abstract = False\<rparr>,
               \<lparr>t_id = IServiceClass, t_abstract = True\<rparr>],
      c_service_name = None, c_new_raises = None, c_initialize = Inherited None,
      c_injects = []\<rparr>"

definition plain_module :: pymodule where
  "plain_module = [(''BaseService'', MClass BaseServiceItself), (''helper'', MOther)]"

theorem discovery_of_absence_witness:
  "discover_and_register_services ''features.other'' (demo_world failing_module)
     = (True, demo_world failing_module)
   \<and> discover_and_register_services ''features.demo'' (demo_world plain_module)
     = (True, demo_world plain_module)"
  using
    discovery_of_absence [of "''features.other''" "demo_world failing_module"]
    discovery_of_absence [of "''features.demo''" "demo_world plain_module"]
  by (simp add: import_module_def demo_world_def plain_module_def BaseServiceItself_def
      detector_defs)

subsection \<open>Properties of feature registration\<close>













end
